theory Spec2Isabelle
  imports Complex_Main
begin

section \<open>Data model (lib/api.ts)\<close>

text \<open>
  JavaScript numbers that take part in arithmetic are modelled as exact reals: the
  rounding, overflow and the infinities of IEEE doubles are outside the model.
  A number-typed prop as it reaches a component at run time may also be
  \<open>undefined\<close> or \<open>NaN\<close>; that is the type \<open>jsnum\<close>.
\<close>

datatype jsnum = Undefined | NaN | Num real

record Point =
  x :: real
  y :: real

record BoundingBox =
  x1 :: real
  y1 :: real
  x2 :: real
  y2 :: real

text \<open>\<open>track_id: number | null\<close>: \<open>None\<close> is \<open>null\<close>.\<close>

record Detection =
  bbox :: BoundingBox
  class_name :: string
  class_id :: real
  confidence :: real
  track_id :: "real option"

text \<open>
  \<open>DetectionResult\<close>. The interface declares \<open>processing_time_ms: number\<close>; the
  object comes unchecked out of a JSON payload, and this is the one field of it on
  which the page calls a method (\<open>toFixed\<close>), so that a value that is missing or
  not a number makes the caller throw: that is \<open>None\<close>.
\<close>

record DetectionResult =
  detections :: "Detection list"
  vehicle_count :: "(string \<times> real) list"
  total_count :: real
  frame_width :: real
  frame_height :: real
  processing_time_ms :: "real option"

text \<open>
  \<open>ZonePolygon\<close>; the field \<open>id\<close> is named \<open>zid\<close> here, and
  \<open>linked_traffic_light_id: string | null\<close> is an option.
\<close>

record ZonePolygon =
  zid :: string
  name :: string
  points :: "Point list"
  is_parking_zone :: bool
  is_traffic_light :: bool
  is_red_light :: bool
  is_stop_line :: bool
  linked_traffic_light_id :: "string option"
  color :: string

text \<open>
  \<open>ParkingViolation\<close>; its fields carry the prefix \<open>v_\<close>. The interface declares
  \<open>track_id: number\<close>, but the value comes unchecked from a JSON payload, so the
  model lets it be \<open>null\<close> as well (\<open>None\<close>).
\<close>

record ParkingViolation =
  v_track_id :: "real option"
  v_vehicle_class :: string
  v_zone_id :: string
  v_zone_name :: string
  v_duration_seconds :: real
  v_bbox :: BoundingBox

section \<open>Coordinate mapping (DetectionViewer.tsx 49-55, PolygonEditor.tsx 54-72)\<close>

text \<open>\<open>d || k\<close> on a number: \<open>undefined\<close>, \<open>NaN\<close> and \<open>0\<close> are falsy.\<close>

fun or_default :: "jsnum \<Rightarrow> real \<Rightarrow> real" where
  "or_default Undefined k = k"
| "or_default NaN k = k"
| "or_default (Num v) k = (if v = 0 then k else v)"

definition safeFrameWidth :: "jsnum \<Rightarrow> real" where
  "safeFrameWidth frameWidth = or_default frameWidth 640"

definition safeFrameHeight :: "jsnum \<Rightarrow> real" where
  "safeFrameHeight frameHeight = or_default frameHeight 360"

definition safeContainerWidth :: "jsnum \<Rightarrow> real" where
  "safeContainerWidth containerWidth = or_default containerWidth 640"

definition safeContainerHeight :: "jsnum \<Rightarrow> real" where
  "safeContainerHeight containerHeight = or_default containerHeight 360"

definition scaleX :: "jsnum \<Rightarrow> jsnum \<Rightarrow> real" where
  "scaleX containerWidth frameWidth =
     safeContainerWidth containerWidth / safeFrameWidth frameWidth"

definition scaleY :: "jsnum \<Rightarrow> jsnum \<Rightarrow> real" where
  "scaleY containerHeight frameHeight =
     safeContainerHeight containerHeight / safeFrameHeight frameHeight"

text \<open>
  The projection into viewport space is written inline at every use in both
  \<open>draw\<close> routines (\<open>p.x * scaleX, p.y * scaleY\<close>); \<open>toViewport\<close> names it.
\<close>

definition toViewport :: "real \<Rightarrow> real \<Rightarrow> Point \<Rightarrow> Point" where
  "toViewport sx sy p = \<lparr>x = x p * sx, y = y p * sy\<rparr>"

text \<open>The part of a \<open>DOMRect\<close> that \<open>toFrameCoords\<close> reads.\<close>

record DOMRect =
  left :: real
  top :: real

definition toFrameCoords :: "real \<Rightarrow> real \<Rightarrow> real \<Rightarrow> real \<Rightarrow> DOMRect \<Rightarrow> Point" where
  "toFrameCoords sx sy clientX clientY rect =
     \<lparr>x = (clientX - left rect) / sx, y = (clientY - top rect) / sy\<rparr>"

section \<open>The drawing surface\<close>

text \<open>
  Text handed to the canvas is kept as a list of pieces, so that number formatting
  and the emoji of the labels need no encoding: \<open>NumStr v\<close> is the default
  conversion of a number inside a template string, \<open>Fixed0 v\<close> is
  \<open>v.toFixed(0)\<close>.
\<close>

datatype glyph = TrafficLightSign | RedCircle | GreenCircle | WarningEmoji | BarrierSign | WarningMark

datatype piece = Str string | Glyph glyph | NumStr real | Fixed0 real

type_synonym jstext = "piece list"

text \<open>
  One constructor per call or assignment on the 2D context that the \<open>draw\<close> routines
  make; a repaint is the list of them in program order.
\<close>

datatype cmd =
    CanvasSize real real
  | ClearRect real real real real
  | BeginPath
  | MoveTo real real
  | LineTo real real
  | ClosePath
  | Arc real real real real real
  | FillStyle string
  | StrokeStyle string
  | LineWidth real
  | LineDash "real list"
  | Font string
  | Fill
  | Stroke
  | StrokeText jstext real real
  | FillText jstext real real
  | StrokeRect real real real real
  | FillRect real real real real

text \<open>
  \<open>moveTo\<close> to the first point, \<open>lineTo\<close> to each later one. Both \<open>draw\<close>
  routines only get here with a first point present.
\<close>

definition polyline :: "real \<Rightarrow> real \<Rightarrow> Point list \<Rightarrow> cmd list" where
  "polyline sx sy ps =
     MoveTo (x (hd ps) * sx) (y (hd ps) * sy) # map (\<lambda>q. LineTo (x q * sx) (y q * sy)) (tl ps)"

section \<open>Detection overlay (DetectionViewer.tsx)\<close>

definition CLASS_COLORS :: "string \<rightharpoonup> string" where
  "CLASS_COLORS =
     [''car'' \<mapsto> ''#00FF00'', ''motorcycle'' \<mapsto> ''#FFFF00'', ''bus'' \<mapsto> ''#FF8800'',
      ''truck'' \<mapsto> ''#FF00FF'', ''bicycle'' \<mapsto> ''#00FFFF'', ''person'' \<mapsto> ''#0088FF'']"

definition VIOLATION_COLOR :: string where
  "VIOLATION_COLOR = ''#FF0000''"

definition getColor :: "string \<Rightarrow> bool \<Rightarrow> string" where
  "getColor className isViolation =
     (if isViolation then VIOLATION_COLOR
      else case CLASS_COLORS className of Some c \<Rightarrow> c | None \<Rightarrow> ''#00FF00'')"

definition violationTrackIds :: "ParkingViolation list \<Rightarrow> real option set" where
  "violationTrackIds violations = set (map v_track_id violations)"

text \<open>Lines 70-99, the body of the loop over the zones; \<open>continue\<close> paints nothing.\<close>

definition dv_draw_zone :: "real \<Rightarrow> real \<Rightarrow> bool \<Rightarrow> ZonePolygon \<Rightarrow> cmd list" where
  "dv_draw_zone sx sy showLabels zone =
     (if length (points zone) < 3 then []
      else
        [BeginPath] @ polyline sx sy (points zone) @
        [ClosePath,
         FillStyle (if is_parking_zone zone then ''rgba(255, 0, 0, 0.2)''
                    else ''rgba(0, 255, 0, 0.2)''),
         Fill,
         StrokeStyle (if color zone \<noteq> [] then color zone
                      else if is_parking_zone zone then ''#FF0000'' else ''#00FF00''),
         LineWidth 3,
         Stroke] @
        (if showLabels then
           [FillStyle ''#FFFFFF'', StrokeStyle ''#000000'', LineWidth 3, Font ''bold 14px Arial'',
            StrokeText [Str (name zone)]
              (x (hd (points zone)) * sx + 5) (y (hd (points zone)) * sy + 20),
            FillText [Str (name zone)]
              (x (hd (points zone)) * sx + 5) (y (hd (points zone)) * sy + 20)]
         else []))"

definition dv_draw_zones :: "real \<Rightarrow> real \<Rightarrow> bool \<Rightarrow> bool \<Rightarrow> ZonePolygon list \<Rightarrow> cmd list" where
  "dv_draw_zones sx sy showLabels showZones zones =
     (if showZones \<and> length zones > 0 then concat (map (dv_draw_zone sx sy showLabels) zones)
      else [])"

text \<open>Line 104.\<close>

definition isViolation :: "bool \<Rightarrow> ParkingViolation list \<Rightarrow> Detection \<Rightarrow> bool" where
  "isViolation showViolations violations det =
     (showViolations \<and> track_id det \<noteq> None \<and> track_id det \<in> violationTrackIds violations)"

text \<open>Lines 117-119.\<close>

definition det_label :: "Detection \<Rightarrow> jstext" where
  "det_label det =
     (case track_id det of
        Some t \<Rightarrow> [Str ''#'', NumStr t, Str '' '', Str (class_name det), Str '' '',
                   Fixed0 (confidence det * 100), Str ''%'']
      | None \<Rightarrow> [Str (class_name det), Str '' '', Fixed0 (confidence det * 100), Str ''%''])"

text \<open>
  Lines 104-146, the body of the loop over the detections. \<open>measureText\<close> is the
  canvas's text metric: the width of a text in a font.
\<close>

definition dv_draw_detection ::
  "(string \<Rightarrow> jstext \<Rightarrow> real) \<Rightarrow> real \<Rightarrow> real \<Rightarrow> bool \<Rightarrow> bool \<Rightarrow> ParkingViolation list
     \<Rightarrow> Detection \<Rightarrow> cmd list" where
  "dv_draw_detection measureText sx sy showLabels showViolations violations det =
     (let isV = isViolation showViolations violations det;
          col = getColor (class_name det) isV;
          rx = x1 (bbox det) * sx;
          ry = y1 (bbox det) * sy;
          w = (x2 (bbox det) - x1 (bbox det)) * sx;
          h = (y2 (bbox det) - y1 (bbox det)) * sy
      in
        [StrokeStyle col, LineWidth (if isV then 4 else 3), StrokeRect rx ry w h] @
        (if showLabels then
           [Font ''bold 12px Arial'',
            FillStyle col,
            FillRect rx (ry - 16 - 4) (measureText ''bold 12px Arial'' (det_label det) + 4 * 2)
              (16 + 4),
            FillStyle ''#000000'',
            FillText (det_label det) (rx + 4) (ry - 4 - 2)]
         else []) @
        (if isV then
           (case find (\<lambda>v. v_track_id v = track_id det) violations of
              Some violation \<Rightarrow>
                if showLabels then
                  [Font ''bold 14px Arial'',
                   FillStyle ''#FF0000'',
                   FillRect rx (ry + h + 4)
                     (measureText ''bold 14px Arial''
                        [Glyph WarningMark, Str '' PARKING '',
                         Fixed0 (v_duration_seconds violation), Str ''s''] + 12) 22,
                   FillStyle ''#FFFFFF'',
                   FillText [Glyph WarningMark, Str '' PARKING '',
                             Fixed0 (v_duration_seconds violation), Str ''s'']
                     (rx + 6) (ry + h + 20)]
                else []
            | None \<Rightarrow> [])
         else []))"

text \<open>
  \<open>draw\<close> of the detection viewer. \<open>has_ctx\<close> is false when the canvas ref is empty or
  gives no 2D context; then \<open>draw\<close> returns at once.
\<close>

definition dv_draw ::
  "bool \<Rightarrow> (string \<Rightarrow> jstext \<Rightarrow> real) \<Rightarrow> Detection list \<Rightarrow> ZonePolygon list
     \<Rightarrow> ParkingViolation list \<Rightarrow> jsnum \<Rightarrow> jsnum \<Rightarrow> jsnum \<Rightarrow> jsnum \<Rightarrow> bool \<Rightarrow> bool \<Rightarrow> bool
     \<Rightarrow> cmd list" where
  "dv_draw has_ctx measureText dets zones violations frameWidth frameHeight
      containerWidth containerHeight showLabels showZones showViolations =
     (if \<not> has_ctx then []
      else
        [CanvasSize (safeContainerWidth containerWidth) (safeContainerHeight containerHeight),
         ClearRect 0 0 (safeContainerWidth containerWidth) (safeContainerHeight containerHeight)] @
        dv_draw_zones (scaleX containerWidth frameWidth) (scaleY containerHeight frameHeight)
          showLabels showZones zones @
        (if length dets > 0 then
           concat (map (dv_draw_detection measureText (scaleX containerWidth frameWidth)
                          (scaleY containerHeight frameHeight) showLabels showViolations violations)
                     dets)
         else []))"

section \<open>Polygon editor state and handlers (PolygonEditor.tsx)\<close>

datatype ZoneType = normal | parking | traffic_light | stop_line

record editor =
  currentPoints :: "Point list"
  zoneName :: string
  zoneType :: ZoneType
  linkedTrafficLightId :: string

text \<open>
  \<open>Array.prototype.slice(start, end)\<close>: a negative index counts from the end, and
  both indices are clamped to the array.
\<close>

definition slice_index :: "nat \<Rightarrow> int \<Rightarrow> nat" where
  "slice_index len i = (if i < 0 then nat (max (int len + i) 0) else min (nat i) len)"

definition slice :: "'a list \<Rightarrow> int \<Rightarrow> int \<Rightarrow> 'a list" where
  "slice xs start fin =
     (let k = slice_index (length xs) start; e = slice_index (length xs) fin
      in take (e - k) (drop k xs))"

definition handleUndo :: "editor \<Rightarrow> editor" where
  "handleUndo s = s\<lparr>currentPoints := slice (currentPoints s) 0 (- 1)\<rparr>"

text \<open>Lines 239-251; \<open>has_canvas\<close> is false when the canvas ref is empty.\<close>

definition handleCanvasClick ::
  "bool \<Rightarrow> bool \<Rightarrow> real \<Rightarrow> real \<Rightarrow> DOMRect \<Rightarrow> real \<Rightarrow> real \<Rightarrow> editor \<Rightarrow> editor" where
  "handleCanvasClick isEditing has_canvas sx sy rect clientX clientY s =
     (if \<not> isEditing then s
      else if \<not> has_canvas then s
      else s\<lparr>currentPoints := currentPoints s @ [toFrameCoords sx sy clientX clientY rect]\<rparr>)"

text \<open>What a handler of the editor does besides writing its own state.\<close>

datatype editor_event = Alert string | OnZoneAdd ZonePolygon | OnEditingChange bool

definition ZONE_COLORS :: "string list" where
  "ZONE_COLORS = [''#00FF00'', ''#FF8800'', ''#00FFFF'', ''#FF00FF'', ''#FFFF00'', ''#8800FF'']"

text \<open>Decimal digits of a natural number, for \<open>`Zone ${zones.length + 1}`\<close>.\<close>

fun string_of_nat :: "nat \<Rightarrow> string" where
  "string_of_nat n =
     (if n < 10 then [''0123456789'' ! n]
      else string_of_nat (n div 10) @ [''0123456789'' ! (n mod 10)])"

declare string_of_nat.simps [simp del]

text \<open>
  Lines 253-294. \<open>new_id\<close> is what \<open>generateId()\<close> returns (a timestamp and a random
  suffix), \<open>zones_length\<close> is \<open>zones.length\<close>. \<open>!linkedTrafficLightId\<close> holds of
  the empty string only.
\<close>

definition handleSaveZone :: "string \<Rightarrow> nat \<Rightarrow> editor \<Rightarrow> editor \<times> editor_event list" where
  "handleSaveZone new_id zones_length s =
     (if length (currentPoints s) < 3 then (s, [])
      else if zoneType s = stop_line \<and> linkedTrafficLightId s = [] then
        (s, [Alert ''Stop Line must be linked to a Traffic Light zone!''])
      else
        (s\<lparr>currentPoints := [], zoneName := [], zoneType := normal, linkedTrafficLightId := []\<rparr>,
         [OnZoneAdd
            \<lparr>zid = new_id,
             name = (if zoneName s \<noteq> [] then zoneName s
                     else ''Zone '' @ string_of_nat (zones_length + 1)),
             points = currentPoints s,
             is_parking_zone = (zoneType s = parking),
             is_traffic_light = (zoneType s = traffic_light),
             is_red_light = False,
             is_stop_line = (zoneType s = stop_line),
             linked_traffic_light_id =
               (if zoneType s = stop_line then Some (linkedTrafficLightId s) else None),
             color =
               (if zoneType s = traffic_light then ''#FFFF00''
                else if zoneType s = stop_line then ''#FFFFFF''
                else ZONE_COLORS ! (zones_length mod length ZONE_COLORS))\<rparr>,
          OnEditingChange False]))"

text \<open>Lines 401-411: the Save button and its \<open>disabled\<close> attribute.\<close>

definition save_disabled :: "editor \<Rightarrow> bool" where
  "save_disabled s =
     (length (currentPoints s) < 3 \<or> (zoneType s = stop_line \<and> linkedTrafficLightId s = []))"

definition click_save :: "string \<Rightarrow> nat \<Rightarrow> editor \<Rightarrow> editor \<times> editor_event list" where
  "click_save new_id zones_length s =
     (if save_disabled s then (s, []) else handleSaveZone new_id zones_length s)"

text \<open>Lines 296-302.\<close>

definition handleCancel :: "editor \<Rightarrow> editor \<times> editor_event list" where
  "handleCancel s =
     (s\<lparr>currentPoints := [], zoneName := [], zoneType := normal, linkedTrafficLightId := []\<rparr>,
      [OnEditingChange False])"

text \<open>Lines 358-365, the role selector.\<close>

definition select_zoneType :: "ZoneType \<Rightarrow> editor \<Rightarrow> editor" where
  "select_zoneType v s =
     (if v \<noteq> stop_line then s\<lparr>zoneType := v, linkedTrafficLightId := []\<rparr>
      else s\<lparr>zoneType := v\<rparr>)"

text \<open>
  The page's \<open>handleZoneAdd\<close> (Detection page, 336-340) is the only receiver of
  \<open>onZoneAdd\<close>; it posts the zone unless the camera id is empty. The requests that
  the events of one handler run lead to:
\<close>

datatype http_request = POST_zones_add string ZonePolygon

definition handleZoneAdd :: "string \<Rightarrow> ZonePolygon \<Rightarrow> http_request list" where
  "handleZoneAdd cameraId zone = (if cameraId = [] then [] else [POST_zones_add cameraId zone])"

fun requests_sent :: "string \<Rightarrow> editor_event list \<Rightarrow> http_request list" where
  "requests_sent cameraId [] = []"
| "requests_sent cameraId (OnZoneAdd zone # es) =
     handleZoneAdd cameraId zone @ requests_sent cameraId es"
| "requests_sent cameraId (e # es) = requests_sent cameraId es"

subsection \<open>The editor's repaint\<close>

text \<open>\<open>zones.find((z) => z.id === zone.linked_traffic_light_id)\<close>\<close>

definition linkedLight :: "ZonePolygon list \<Rightarrow> ZonePolygon \<Rightarrow> ZonePolygon option" where
  "linkedLight zones zone = find (\<lambda>z. Some (zid z) = linked_traffic_light_id zone) zones"

text \<open>\<open>linkedLight?.is_red_light\<close> as a condition.\<close>

definition light_is_red :: "ZonePolygon option \<Rightarrow> bool" where
  "light_is_red l = (case l of Some z \<Rightarrow> is_red_light z | None \<Rightarrow> False)"

definition getZoneColor :: "ZonePolygon list \<Rightarrow> ZonePolygon \<Rightarrow> string" where
  "getZoneColor zones zone =
     (if is_traffic_light zone then
        (if is_red_light zone then ''rgba(255, 0, 0, 0.35)'' else ''rgba(0, 255, 0, 0.35)'')
      else if is_stop_line zone then
        (if light_is_red (linkedLight zones zone) then ''rgba(255, 0, 0, 0.4)''
         else ''rgba(255, 255, 255, 0.3)'')
      else if is_parking_zone zone then ''rgba(255, 0, 0, 0.25)''
      else ''rgba(0, 255, 0, 0.25)'')"

definition getZoneStrokeColor :: "ZonePolygon list \<Rightarrow> ZonePolygon \<Rightarrow> string" where
  "getZoneStrokeColor zones zone =
     (if is_stop_line zone then
        (if light_is_red (linkedLight zones zone) then ''#FF0000'' else ''#FFFFFF'')
      else if color zone \<noteq> [] then color zone else ''#00FF00'')"

text \<open>Lines 147-160.\<close>

definition zone_label :: "ZonePolygon list \<Rightarrow> ZonePolygon \<Rightarrow> jstext" where
  "zone_label zones zone =
     (if is_traffic_light zone then
        [Glyph TrafficLightSign, Str '' '', Str (name zone), Str '' '',
         Glyph (if is_red_light zone then RedCircle else GreenCircle)]
      else if is_stop_line zone then
        [Glyph BarrierSign, Str '' '', Str (name zone), Str '' '',
         Glyph (case linkedLight zones zone of
                  Some l \<Rightarrow> if is_red_light l then RedCircle else GreenCircle
                | None \<Rightarrow> WarningEmoji)]
      else [Str (name zone)])"

text \<open>\<open>ps.reduce((s, p) => s + p.x, 0) / ps.length\<close> and the same for \<open>y\<close>.\<close>

definition center :: "Point list \<Rightarrow> Point" where
  "center ps =
     \<lparr>x = foldl (\<lambda>s p. s + x p) 0 ps / real (length ps),
      y = foldl (\<lambda>s p. s + y p) 0 ps / real (length ps)\<rparr>"

text \<open>Lines 165-191, the connector from a stop line to its light.\<close>

definition link_line :: "ZonePolygon list \<Rightarrow> real \<Rightarrow> real \<Rightarrow> ZonePolygon \<Rightarrow> cmd list" where
  "link_line zones sx sy zone =
     (if is_stop_line zone \<and> linked_traffic_light_id zone \<noteq> None
         \<and> linked_traffic_light_id zone \<noteq> Some [] then
        (case linkedLight zones zone of
           Some l \<Rightarrow>
             if length (points l) > 0 then
               [BeginPath,
                MoveTo (x (center (points zone)) * sx) (y (center (points zone)) * sy),
                LineTo (x (center (points l)) * sx) (y (center (points l)) * sy),
                StrokeStyle ''rgba(255, 255, 0, 0.5)'',
                LineWidth 2,
                LineDash [5, 5],
                Stroke,
                LineDash []]
             else []
         | None \<Rightarrow> [])
      else [])"

text \<open>Lines 118-191, the body of the loop over the zones.\<close>

definition pe_draw_zone :: "ZonePolygon list \<Rightarrow> real \<Rightarrow> real \<Rightarrow> ZonePolygon \<Rightarrow> cmd list" where
  "pe_draw_zone zones sx sy zone =
     (if length (points zone) < 3 then []
      else
        [BeginPath] @ polyline sx sy (points zone) @
        [ClosePath,
         FillStyle (getZoneColor zones zone),
         Fill,
         StrokeStyle (getZoneStrokeColor zones zone),
         LineWidth (if is_traffic_light zone \<or> is_stop_line zone then 4 else 3),
         LineDash (if is_stop_line zone then [10, 5] else []),
         Stroke,
         LineDash [],
         FillStyle ''#FFFFFF'',
         StrokeStyle ''#000000'',
         LineWidth 3,
         Font ''bold 14px Arial'',
         StrokeText (zone_label zones zone)
           (x (hd (points zone)) * sx + 5) (y (hd (points zone)) * sy + 20),
         FillText (zone_label zones zone)
           (x (hd (points zone)) * sx + 5) (y (hd (points zone)) * sy + 20)] @
        link_line zones sx sy zone)"

definition pe_draw_zones :: "real \<Rightarrow> real \<Rightarrow> ZonePolygon list \<Rightarrow> cmd list" where
  "pe_draw_zones sx sy zones = concat (map (pe_draw_zone zones sx sy) zones)"

text \<open>Lines 194-223, the polygon being drawn.\<close>

definition pending_color :: "ZoneType \<Rightarrow> string" where
  "pending_color t =
     (if t = traffic_light then ''#FFFF00''
      else if t = parking then ''#FF0000''
      else if t = stop_line then ''#FFFFFF''
      else ''#00FF00'')"

definition pe_draw_pending :: "real \<Rightarrow> real \<Rightarrow> bool \<Rightarrow> editor \<Rightarrow> cmd list" where
  "pe_draw_pending sx sy isEditing s =
     (if isEditing \<and> length (currentPoints s) > 0 then
        [BeginPath] @ polyline sx sy (currentPoints s) @
        [StrokeStyle (pending_color (zoneType s)), LineWidth 3, LineDash [8, 4], Stroke,
         LineDash []] @
        concat (map (\<lambda>p. [BeginPath, Arc (x p * sx) (y p * sy) 8 0 (pi * 2),
                           FillStyle (pending_color (zoneType s)), Fill,
                           StrokeStyle ''#FFFFFF'', LineWidth 2, Stroke])
                  (currentPoints s))
      else [])"

text \<open>\<open>draw\<close> of the polygon editor, lines 105-233.\<close>

definition pe_draw ::
  "bool \<Rightarrow> ZonePolygon list \<Rightarrow> jsnum \<Rightarrow> jsnum \<Rightarrow> jsnum \<Rightarrow> jsnum \<Rightarrow> bool \<Rightarrow> editor \<Rightarrow> cmd list" where
  "pe_draw has_ctx zones frameWidth frameHeight containerWidth containerHeight isEditing s =
     (if \<not> has_ctx then []
      else
        [CanvasSize (safeContainerWidth containerWidth) (safeContainerHeight containerHeight),
         ClearRect 0 0 (safeContainerWidth containerWidth) (safeContainerHeight containerHeight)] @
        pe_draw_zones (scaleX containerWidth frameWidth) (scaleY containerHeight frameHeight) zones @
        pe_draw_pending (scaleX containerWidth frameWidth) (scaleY containerHeight frameHeight)
          isEditing s)"

section \<open>Detection page (pages/Detection.tsx)\<close>

record Size =
  width :: real
  height :: real

text \<open>What the client writes to a socket: \<open>{video_url, send_frame}\<close> or \<open>{type: "update_zones"}\<close>.\<close>

datatype ws_out = StreamRequest string bool | UpdateZones

datatype page_request = Detect_image string string

text \<open>
  The React state and refs of the page, and with them the part of the browser that
  its effects act on: the sockets that are open, the interval timers that run
  (by id, ids are handed out from \<open>next_id\<close>), what was written to the sockets,
  the detection requests issued and the messages given to \<open>console.error\<close>
  (\<open>console.log\<close> is left out). \<open>result\<close> is \<open>None\<close> for \<open>null\<close> and for
  \<open>undefined\<close>, which the page never tells apart.
\<close>

record page =
  isDetecting :: bool
  isEditing :: bool
  debugInfo :: jstext
  result :: "DetectionResult option"
  violations :: "ParkingViolation list"
  frameSize :: Size
  syncedFrame :: "string option"
  wsRef :: "nat option"
  detectIntervalRef :: "nat option"
  open_sockets :: "nat set"
  intervals :: "nat set"
  next_id :: nat
  ws_sent :: "(nat \<times> ws_out) list"
  requests :: "page_request list"
  console_errors :: "string list"

definition initial_page :: page where
  "initial_page =
     \<lparr>isDetecting = False, isEditing = False, debugInfo = [], result = None, violations = [],
      frameSize = \<lparr>width = 1920, height = 1080\<rparr>, syncedFrame = None, wsRef = None,
      detectIntervalRef = None, open_sockets = {}, intervals = {}, next_id = 1, ws_sent = [],
      requests = [], console_errors = []\<rparr>"

text \<open>
  The data of a socket message after \<open>JSON.parse\<close>, by the fields the handler
  reads; a field that is absent or \<open>null\<close> is \<open>None\<close>, and for \<open>error\<close>, which is
  only printed, the two are kept apart. A message without a \<open>type\<close> behaves as one
  whose type is none of the three names. \<open>Unreadable\<close> is a text on which
  \<open>JSON.parse\<close> throws, or the text \<open>null\<close>, on whose value reading \<open>data.type\<close>
  throws.
\<close>

datatype error_field = NoError | NullError | ErrorText string

record ws_data =
  m_type :: string
  m_result :: "DetectionResult option"
  m_violations :: "ParkingViolation list option"
  m_frame :: "string option"
  m_error :: error_field

datatype ws_payload = Unreadable | Json ws_data

text \<open>\<open>vs || []\<close>\<close>

definition or_empty :: "'a list option \<Rightarrow> 'a list" where
  "or_empty vs = (case vs of Some l \<Rightarrow> l | None \<Rightarrow> [])"

text \<open>Lines 263-267, for the socket \<open>h\<close>.\<close>

definition ws_onopen :: "string \<Rightarrow> nat \<Rightarrow> page \<Rightarrow> page" where
  "ws_onopen cameraUrl h s =
     s\<lparr>debugInfo := [Str ''Connecting to video stream...''],
       ws_sent := ws_sent s @ [(h, StreamRequest cameraUrl True)]\<rparr>"

text \<open>
  Lines 269-292; everything is inside one \<open>try\<close>, whose \<open>catch\<close> logs and goes
  on. In the branch for \<open>detection_result\<close> the result and the violations are set
  first. The argument of \<open>setFrameSize\<close> reads \<open>data.result.frame_width\<close>, which
  throws when there is no result: the two updates made so far stay, nothing else
  is reached. The argument of \<open>setDebugInfo\<close> calls
  \<open>data.result.processing_time_ms.toFixed(0)\<close>, which throws when that field is no
  number: the frame size has been set by then, the status text and the synced
  frame are not reached. \<open>if (data.frame)\<close> holds of a non-empty string.
\<close>

definition ws_onmessage :: "ws_payload \<Rightarrow> page \<Rightarrow> page" where
  "ws_onmessage payload s =
     (case payload of
        Unreadable \<Rightarrow> s\<lparr>console_errors := console_errors s @ [''WS message parse error:'']\<rparr>
      | Json d \<Rightarrow>
          if m_type d = ''detection_result'' then
            (case m_result d of
               None \<Rightarrow>
                 s\<lparr>result := None, violations := or_empty (m_violations d),
                   console_errors := console_errors s @ [''WS message parse error:'']\<rparr>
             | Some r \<Rightarrow>
                 (let s1 = s\<lparr>result := Some r,
                              violations := or_empty (m_violations d),
                              frameSize := \<lparr>width = frame_width r, height = frame_height r\<rparr>\<rparr>
                  in case processing_time_ms r of
                       None \<Rightarrow>
                         s1\<lparr>console_errors :=
                              console_errors s @ [''WS message parse error:'']\<rparr>
                     | Some t \<Rightarrow>
                         (let s2 = s1\<lparr>debugInfo := [NumStr (total_count r),
                                                     Str '' vehicles ('', Fixed0 t, Str ''ms)'']\<rparr>
                          in if m_frame d \<noteq> None \<and> m_frame d \<noteq> Some [] then
                               s2\<lparr>syncedFrame := m_frame d\<rparr>
                             else s2)))
          else if m_type d = ''connected'' then
            s\<lparr>debugInfo := [Str ''Video stream connected!'']\<rparr>
          else if m_type d = ''error'' then
            s\<lparr>debugInfo := [Str ''Error: '',
                             Str (case m_error d of
                                    ErrorText e \<Rightarrow> e
                                  | NullError \<Rightarrow> ''null''
                                  | NoError \<Rightarrow> ''undefined'')]\<rparr>
          else s)"

text \<open>Line 294.\<close>

definition ws_onerror :: "page \<Rightarrow> page" where
  "ws_onerror s = s\<lparr>debugInfo := [Str ''WebSocket error'']\<rparr>"

text \<open>
  Lines 200-223, \<open>runDetectionForImage\<close> up to its \<open>await\<close>, and then what it does
  with the answer: a response body, or a rejected request with its message.
\<close>

definition runDetectionForImage :: "string \<Rightarrow> string \<Rightarrow> page \<Rightarrow> page" where
  "runDetectionForImage cameraId cameraUrl s =
     (if cameraUrl = [] \<or> cameraId = [] then s
      else s\<lparr>requests := requests s @ [Detect_image cameraUrl cameraId]\<rparr>)"

record DetectResponse =
  success :: bool
  r_result :: "DetectionResult option"
  r_violations :: "ParkingViolation list option"
  r_error :: "string option"

datatype detect_outcome = Rejected string | Response DetectResponse

definition runDetectionForImage_resume :: "detect_outcome \<Rightarrow> page \<Rightarrow> page" where
  "runDetectionForImage_resume outcome s =
     (case outcome of
        Rejected msg \<Rightarrow>
          s\<lparr>debugInfo := [Str ''Error: '', Str msg],
            console_errors := console_errors s @ [''Detection failed:'']\<rparr>
      | Response resp \<Rightarrow>
          (case r_result resp of
             Some r \<Rightarrow>
               if success resp then
                 s\<lparr>result := Some r,
                   violations := or_empty (r_violations resp),
                   frameSize := \<lparr>width = frame_width r, height = frame_height r\<rparr>,
                   debugInfo := [Str ''Detected: '', NumStr (total_count r), Str '' vehicles'']\<rparr>
               else
                 s\<lparr>debugInfo := [Str ''Error: '',
                                  Str (case r_error resp of
                                         Some e \<Rightarrow> if e \<noteq> [] then e else ''No result''
                                       | None \<Rightarrow> ''No result'')]\<rparr>
           | None \<Rightarrow>
               s\<lparr>debugInfo := [Str ''Error: '',
                                Str (case r_error resp of
                                       Some e \<Rightarrow> if e \<noteq> [] then e else ''No result''
                                     | None \<Rightarrow> ''No result'')]\<rparr>))"

text \<open>
  Lines 257-320, the effect that depends on \<open>isDetecting\<close>. First what it returns,
  the cleanup that React runs before the effect runs again: it closes the socket
  and clears the timer, and leaves the timer's id in the ref. An id is truthy
  when it is not 0.
\<close>

definition close_socket :: "page \<Rightarrow> page" where
  "close_socket s =
     (case wsRef s of
        Some h \<Rightarrow> s\<lparr>open_sockets := open_sockets s - {h}, wsRef := None\<rparr>
      | None \<Rightarrow> s)"

definition detection_cleanup :: "page \<Rightarrow> page" where
  "detection_cleanup s =
     (let s1 = close_socket s
      in case detectIntervalRef s1 of
           Some t \<Rightarrow> if t \<noteq> 0 then s1\<lparr>intervals := intervals s1 - {t}\<rparr> else s1
         | None \<Rightarrow> s1)"

definition detection_effect :: "bool \<Rightarrow> string \<Rightarrow> string \<Rightarrow> page \<Rightarrow> page" where
  "detection_effect isM3u8 cameraId cameraUrl s =
     (if isDetecting s then
        (if isM3u8 then
           s\<lparr>open_sockets := insert (next_id s) (open_sockets s),
             wsRef := Some (next_id s),
             next_id := Suc (next_id s)\<rparr>
         else
           (let s1 = runDetectionForImage cameraId cameraUrl s
            in s1\<lparr>intervals := insert (next_id s1) (intervals s1),
                  detectIntervalRef := Some (next_id s1),
                  next_id := Suc (next_id s1)\<rparr>))
      else
        (let s1 = close_socket s;
             s2 = (case detectIntervalRef s1 of
                     Some t \<Rightarrow>
                       if t \<noteq> 0 then s1\<lparr>intervals := intervals s1 - {t}, detectIntervalRef := None\<rparr>
                       else s1
                   | None \<Rightarrow> s1)
         in s2\<lparr>result := None, syncedFrame := None\<rparr>))"

text \<open>
  Line 389, the Start/Stop button: \<open>setIsDetecting(!isDetecting)\<close>, after which
  React runs the cleanup of the effect and then the effect. The button is
  disabled while the zone editor is active (line 390).
\<close>

definition toggle_detection :: "bool \<Rightarrow> string \<Rightarrow> string \<Rightarrow> page \<Rightarrow> page" where
  "toggle_detection isM3u8 cameraId cameraUrl s =
     detection_effect isM3u8 cameraId cameraUrl
       (detection_cleanup (s\<lparr>isDetecting := \<not> isDetecting s\<rparr>))"

definition click_toggle :: "bool \<Rightarrow> string \<Rightarrow> string \<Rightarrow> page \<Rightarrow> page" where
  "click_toggle isM3u8 cameraId cameraUrl s =
     (if isEditing s then s else toggle_detection isM3u8 cameraId cameraUrl s)"

text \<open>Lines 408-437: the element that shows the camera.\<close>

datatype surface = SyncedFrameImg string | VideoElement | SnapshotImg

definition displayed :: "bool \<Rightarrow> page \<Rightarrow> surface" where
  "displayed isM3u8 s =
     (if isM3u8 then
        (case syncedFrame s of
           Some f \<Rightarrow> if isDetecting s \<and> f \<noteq> [] then SyncedFrameImg f else VideoElement
         | None \<Rightarrow> VideoElement)
      else SnapshotImg)"

section \<open>Sample inputs\<close>

text \<open>Concrete values at which the theorems below are evaluated.\<close>

abbreviation triangle :: "Point list" where
  "triangle \<equiv> [\<lparr>x = 0, y = 0\<rparr>, \<lparr>x = 10, y = 0\<rparr>, \<lparr>x = 10, y = 10\<rparr>]"

abbreviation box1 :: BoundingBox where
  "box1 \<equiv> \<lparr>x1 = 10, y1 = 20, x2 = 40, y2 = 60\<rparr>"

abbreviation untracked_car :: Detection where
  "untracked_car \<equiv>
     \<lparr>bbox = box1, class_name = ''car'', class_id = 2, confidence = 1 / 2, track_id = None\<rparr>"

abbreviation null_key_violation :: ParkingViolation where
  "null_key_violation \<equiv>
     \<lparr>v_track_id = None, v_vehicle_class = ''car'', v_zone_id = ''zone_1_a'',
      v_zone_name = ''Lot'', v_duration_seconds = 75, v_bbox = box1\<rparr>"

abbreviation violation7 :: ParkingViolation where
  "violation7 \<equiv>
     \<lparr>v_track_id = Some 7, v_vehicle_class = ''car'', v_zone_id = ''zone_1_a'',
      v_zone_name = ''Lot'', v_duration_seconds = 75, v_bbox = box1\<rparr>"

abbreviation stop_line_s1 :: ZonePolygon where
  "stop_line_s1 \<equiv>
     \<lparr>zid = ''s1'', name = ''Stop'', points = triangle, is_parking_zone = False,
      is_traffic_light = False, is_red_light = False, is_stop_line = True,
      linked_traffic_light_id = Some ''l1'', color = ''#FFFFFF''\<rparr>"

abbreviation short_light_l1 :: ZonePolygon where
  "short_light_l1 \<equiv>
     \<lparr>zid = ''l1'', name = ''Light'', points = [\<lparr>x = 50, y = 50\<rparr>, \<lparr>x = 60, y = 50\<rparr>],
      is_parking_zone = False, is_traffic_light = True, is_red_light = True,
      is_stop_line = False, linked_traffic_light_id = None, color = ''#FFFF00''\<rparr>"

abbreviation short_zone_z9 :: ZonePolygon where
  "short_zone_z9 \<equiv>
     \<lparr>zid = ''z9'', name = ''Short'', points = [\<lparr>x = 1, y = 1\<rparr>, \<lparr>x = 2, y = 2\<rparr>],
      is_parking_zone = True, is_traffic_light = False, is_red_light = False,
      is_stop_line = False, linked_traffic_light_id = None, color = ''#FF8800''\<rparr>"

abbreviation idle_editor :: editor where
  "idle_editor \<equiv>
     \<lparr>currentPoints = [], zoneName = [], zoneType = normal, linkedTrafficLightId = []\<rparr>"

abbreviation unlinked_stop_line :: editor where
  "unlinked_stop_line \<equiv>
     \<lparr>currentPoints = triangle, zoneName = ''Stop'', zoneType = stop_line,
      linkedTrafficLightId = []\<rparr>"

abbreviation two_points :: editor where
  "two_points \<equiv>
     \<lparr>currentPoints = [\<lparr>x = 0, y = 0\<rparr>, \<lparr>x = 10, y = 0\<rparr>], zoneName = ''Lot'',
      zoneType = parking, linkedTrafficLightId = []\<rparr>"

abbreviation linked_stop_line :: editor where
  "linked_stop_line \<equiv>
     \<lparr>currentPoints = triangle, zoneName = ''Stop'', zoneType = stop_line,
      linkedTrafficLightId = ''zone_1_a''\<rparr>"

abbreviation saved_stop_line :: ZonePolygon where
  "saved_stop_line \<equiv>
     \<lparr>zid = ''zone_2_b'', name = ''Stop'', points = triangle, is_parking_zone = False,
      is_traffic_light = False, is_red_light = False, is_stop_line = True,
      linked_traffic_light_id = Some ''zone_1_a'', color = ''#FFFFFF''\<rparr>"

abbreviation result720 :: DetectionResult where
  "result720 \<equiv>
     \<lparr>detections = [], vehicle_count = [], total_count = 0, frame_width = 1280,
      frame_height = 720, processing_time_ms = Some 35\<rparr>"

abbreviation full_message :: ws_data where
  "full_message \<equiv>
     \<lparr>m_type = ''detection_result'', m_result = Some result720,
      m_violations = Some [violation7], m_frame = Some ''data:image/jpeg;base64,AA'',
      m_error = NoError\<rparr>"

abbreviation message_with_empty_frame :: ws_data where
  "message_with_empty_frame \<equiv>
     \<lparr>m_type = ''detection_result'', m_result = Some result720, m_violations = None,
      m_frame = Some [], m_error = NoError\<rparr>"

text \<open>
  A page for a stream camera: mounted, detection turned on, socket 1 open and the
  stream request written to it.
\<close>

abbreviation streaming_page :: page where
  "streaming_page \<equiv>
     ws_onopen ''http://cam/live.m3u8'' 1
       (toggle_detection True ''cam1'' ''http://cam/live.m3u8''
          (detection_effect True ''cam1'' ''http://cam/live.m3u8'' initial_page))"

section \<open>Theorems\<close>

lemma or_default_nonzero: "k \<noteq> 0 \<Longrightarrow> or_default d k \<noteq> 0"
  by (cases d) simp_all

lemma slice_drop_last: "slice xs 0 (- 1) = butlast xs"
proof -
  have "nat (max (int (length xs) - 1) 0) = length xs - 1"
    by (cases "length xs") simp_all
  then show ?thesis
    by (simp add: slice_def slice_index_def butlast_conv_take)
qed

lemma class_color_not_violation: "getColor cn False \<noteq> VIOLATION_COLOR"
  by (simp add: getColor_def CLASS_COLORS_def VIOLATION_COLOR_def)

lemma stroke_rect_drawn:
  "StrokeRect (x1 (bbox det) * sx) (y1 (bbox det) * sy)
     ((x2 (bbox det) - x1 (bbox det)) * sx) ((y2 (bbox det) - y1 (bbox det)) * sy)
   \<in> set (dv_draw_detection measureText sx sy showLabels showViolations vs det)"
  unfolding dv_draw_detection_def Let_def by (simp del: set_append)

lemma dv_short_zone: "length (points z) < 3 \<Longrightarrow> dv_draw_zone sx sy showLabels z = []"
  by (simp add: dv_draw_zone_def)

lemma pe_short_zone: "length (points z) < 3 \<Longrightarrow> pe_draw_zone zones sx sy z = []"
  by (simp add: pe_draw_zone_def)

lemma dv_draw_zones_skip:
  assumes "length (points z) < 3"
  shows "dv_draw_zones sx sy showLabels showZones (zs1 @ z # zs2)
         = dv_draw_zones sx sy showLabels showZones (zs1 @ zs2)"
  using assms by (simp add: dv_draw_zones_def dv_short_zone)

lemma linkedLight_skip:
  assumes "linked_traffic_light_id z' \<noteq> Some (zid z)"
  shows "linkedLight (zs1 @ z # zs2) z' = linkedLight (zs1 @ zs2) z'"
  using assms unfolding linkedLight_def
  by (induction zs1) auto

lemma pe_draw_zone_skip:
  assumes "is_stop_line z' \<and> 3 \<le> length (points z') \<longrightarrow> linked_traffic_light_id z' \<noteq> Some (zid z)"
  shows "pe_draw_zone (zs1 @ z # zs2) sx sy z' = pe_draw_zone (zs1 @ zs2) sx sy z'"
proof (cases "is_stop_line z' \<and> 3 \<le> length (points z')")
  case True
  with assms have "linkedLight (zs1 @ z # zs2) z' = linkedLight (zs1 @ zs2) z'"
    by (simp add: linkedLight_skip)
  then show ?thesis
    by (simp add: pe_draw_zone_def getZoneColor_def getZoneStrokeColor_def zone_label_def
        link_line_def)
next
  case False
  then show ?thesis
    by (auto simp add: pe_draw_zone_def getZoneColor_def getZoneStrokeColor_def zone_label_def
        link_line_def)
qed

lemma pe_draw_zones_skip:
  assumes "length (points z) < 3"
    and "\<forall>z' \<in> set (zs1 @ zs2). is_stop_line z' \<and> 3 \<le> length (points z')
            \<longrightarrow> linked_traffic_light_id z' \<noteq> Some (zid z)"
  shows "pe_draw_zones sx sy (zs1 @ z # zs2) = pe_draw_zones sx sy (zs1 @ zs2)"
proof -
  have same: "map (pe_draw_zone (zs1 @ z # zs2) sx sy) zs = map (pe_draw_zone (zs1 @ zs2) sx sy) zs"
    if "set zs \<subseteq> set (zs1 @ zs2)" for zs
    using that assms(2) by (intro map_cong refl pe_draw_zone_skip) blast
  have m1: "map (pe_draw_zone (zs1 @ z # zs2) sx sy) zs1 = map (pe_draw_zone (zs1 @ zs2) sx sy) zs1"
    by (rule same) simp
  have m2: "map (pe_draw_zone (zs1 @ z # zs2) sx sy) zs2 = map (pe_draw_zone (zs1 @ zs2) sx sy) zs2"
    by (rule same) simp
  have "pe_draw_zones sx sy (zs1 @ z # zs2)
        = concat (map (pe_draw_zone (zs1 @ z # zs2) sx sy) zs1)
          @ pe_draw_zone (zs1 @ z # zs2) sx sy z
          @ concat (map (pe_draw_zone (zs1 @ z # zs2) sx sy) zs2)"
    by (simp add: pe_draw_zones_def)
  also have "\<dots> = concat (map (pe_draw_zone (zs1 @ zs2) sx sy) zs1)
          @ concat (map (pe_draw_zone (zs1 @ zs2) sx sy) zs2)"
    by (simp only: m1 m2 pe_short_zone [OF assms(1)] append_Nil)
  also have "\<dots> = pe_draw_zones sx sy (zs1 @ zs2)"
    by (simp add: pe_draw_zones_def)
  finally show ?thesis .
qed


text \<open>
  Turning detection off: the socket held by the ref is closed and the timer held
  by the ref is cleared, the result and the synced frame are reset, the page shows
  the raw video or the snapshot again. The violation list is not written.
\<close>

lemma toggle_off_effects:
  assumes "isDetecting s"
  shows "result (toggle_detection isM3u8 cameraId cameraUrl s) = None
    \<and> syncedFrame (toggle_detection isM3u8 cameraId cameraUrl s) = None
    \<and> wsRef (toggle_detection isM3u8 cameraId cameraUrl s) = None
    \<and> open_sockets (toggle_detection isM3u8 cameraId cameraUrl s)
        = open_sockets s - set_option (wsRef s)
    \<and> intervals (toggle_detection isM3u8 cameraId cameraUrl s)
        = intervals s - (set_option (detectIntervalRef s) - {0})
    \<and> displayed isM3u8 (toggle_detection isM3u8 cameraId cameraUrl s)
        = (if isM3u8 then VideoElement else SnapshotImg)
    \<and> violations (toggle_detection isM3u8 cameraId cameraUrl s) = violations s"
  using assms
  by (auto simp: toggle_detection_def detection_effect_def detection_cleanup_def close_socket_def
      displayed_def Let_def split: option.splits)

text \<open>
  A detection_result message that is not of the protocol's shape is applied up to
  the statement that throws, and logged.
\<close>

lemma ws_onmessage_half_applied:
  "m_type d = ''detection_result'' \<Longrightarrow> m_result d = None \<Longrightarrow>
     ws_onmessage (Json d) s
     = s\<lparr>result := None, violations := or_empty (m_violations d),
         console_errors := console_errors s @ [''WS message parse error:'']\<rparr>"
  "m_type d = ''detection_result'' \<Longrightarrow> m_result d = Some r \<Longrightarrow> processing_time_ms r = None \<Longrightarrow>
     ws_onmessage (Json d) s
     = s\<lparr>result := Some r, violations := or_empty (m_violations d),
         frameSize := \<lparr>width = frame_width r, height = frame_height r\<rparr>,
         console_errors := console_errors s @ [''WS message parse error:'']\<rparr>"
  by (simp_all add: ws_onmessage_def)

text \<open>
  C6. A frame or container dimension that is zero or undefined (or NaN) is replaced
  by the default, 640 for a width and 360 for a height; whatever the four
  dimensions are, the dimensions used are non-zero, so both divisions have a
  non-zero divisor and the scale factors scaleX and scaleY are non-zero.
\<close>

theorem safe_dimensions_default:
  "safeFrameWidth Undefined = 640 \<and> safeFrameWidth (Num 0) = 640 \<and> safeFrameWidth NaN = 640
   \<and> safeFrameHeight Undefined = 360 \<and> safeFrameHeight (Num 0) = 360 \<and> safeFrameHeight NaN = 360
   \<and> safeContainerWidth Undefined = 640 \<and> safeContainerWidth (Num 0) = 640
   \<and> safeContainerWidth NaN = 640
   \<and> safeContainerHeight Undefined = 360 \<and> safeContainerHeight (Num 0) = 360
   \<and> safeContainerHeight NaN = 360
   \<and> safeFrameWidth fw \<noteq> 0 \<and> safeFrameHeight fh \<noteq> 0
   \<and> safeContainerWidth cw \<noteq> 0 \<and> safeContainerHeight ch \<noteq> 0
   \<and> scaleX cw fw \<noteq> 0 \<and> scaleY ch fh \<noteq> 0"
  by (simp add: safeFrameWidth_def safeFrameHeight_def safeContainerWidth_def
      safeContainerHeight_def scaleX_def scaleY_def or_default_nonzero)

text \<open>
  C1. Round trip. With positive frame and container dimensions, projecting a frame
  point p into the viewport, placing it on screen at the container's origin
  (rect.left, rect.top) and mapping that client position back with toFrameCoords
  gives p again. The arithmetic is exact real arithmetic, so the result is p
  itself; the rounding error of doubles is not part of the model.
\<close>

theorem toFrame_toViewport_roundtrip:
  assumes "0 < fw" and "0 < fh" and "0 < cw" and "0 < ch"
  shows "toFrameCoords (scaleX (Num cw) (Num fw)) (scaleY (Num ch) (Num fh))
           (x (toViewport (scaleX (Num cw) (Num fw)) (scaleY (Num ch) (Num fh)) p) + left rect)
           (y (toViewport (scaleX (Num cw) (Num fw)) (scaleY (Num ch) (Num fh)) p) + top rect)
           rect = p"
  using assms
  by (simp add: toFrameCoords_def toViewport_def scaleX_def scaleY_def safeFrameWidth_def
      safeFrameHeight_def safeContainerWidth_def safeContainerHeight_def)

theorem toFrame_toViewport_roundtrip_witness:
  "toFrameCoords (scaleX (Num 800) (Num 1920)) (scaleY (Num 450) (Num 1080))
     (x (toViewport (scaleX (Num 800) (Num 1920)) (scaleY (Num 450) (Num 1080))
           \<lparr>x = 100, y = 300\<rparr>) + left \<lparr>left = 12, top = 34\<rparr>)
     (y (toViewport (scaleX (Num 800) (Num 1920)) (scaleY (Num 450) (Num 1080))
           \<lparr>x = 100, y = 300\<rparr>) + top \<lparr>left = 12, top = 34\<rparr>)
     \<lparr>left = 12, top = 34\<rparr> = \<lparr>x = 100, y = 300\<rparr>"
  using toFrame_toViewport_roundtrip [of 1920 1080 800 450 "\<lparr>x = 100, y = 300\<rparr>"
      "\<lparr>left = 12, top = 34\<rparr>"]
  by simp

text \<open>
  C10. Undo removes exactly the last placed point: on points ps followed by p it
  leaves ps, on no points it leaves none, and the pending name, role and link
  target are as they were.
\<close>

theorem handleUndo_removes_last:
  "handleUndo (s\<lparr>currentPoints := ps @ [p]\<rparr>) = s\<lparr>currentPoints := ps\<rparr>
   \<and> handleUndo (s\<lparr>currentPoints := []\<rparr>) = s\<lparr>currentPoints := []\<rparr>
   \<and> currentPoints (handleUndo s) = butlast (currentPoints s)
   \<and> zoneName (handleUndo s) = zoneName s
   \<and> zoneType (handleUndo s) = zoneType s
   \<and> linkedTrafficLightId (handleUndo s) = linkedTrafficLightId s"
  by (simp add: handleUndo_def slice_drop_last)

text \<open>
  C2. A detection whose track_id is null is never a violation, whatever the
  violation list holds (also an entry whose own key is null) and whatever the
  display toggles are: its box is stroked in the colour of its class, which is
  never the violation colour, with line width 3, its label (when labels are shown)
  is filled in the same colour, and no violation callout follows.
\<close>

theorem null_track_never_violation:
  assumes "track_id det = None"
  shows "\<not> isViolation showViolations vs det
    \<and> getColor (class_name det) (isViolation showViolations vs det) =
        (case CLASS_COLORS (class_name det) of Some c \<Rightarrow> c | None \<Rightarrow> ''#00FF00'')
    \<and> getColor (class_name det) (isViolation showViolations vs det) \<noteq> VIOLATION_COLOR
    \<and> dv_draw_detection measureText sx sy showLabels showViolations vs det =
        [StrokeStyle (getColor (class_name det) False), LineWidth 3,
         StrokeRect (x1 (bbox det) * sx) (y1 (bbox det) * sy)
           ((x2 (bbox det) - x1 (bbox det)) * sx) ((y2 (bbox det) - y1 (bbox det)) * sy)] @
        (if showLabels then
           [Font ''bold 12px Arial'',
            FillStyle (getColor (class_name det) False),
            FillRect (x1 (bbox det) * sx) (y1 (bbox det) * sy - 16 - 4)
              (measureText ''bold 12px Arial'' (det_label det) + 4 * 2) (16 + 4),
            FillStyle ''#000000'',
            FillText (det_label det) (x1 (bbox det) * sx + 4) (y1 (bbox det) * sy - 4 - 2)]
         else [])"
proof -
  have nv: "\<not> isViolation showViolations vs det"
    using assms by (simp add: isViolation_def)
  show ?thesis
    using nv class_color_not_violation [of "class_name det"]
    by (simp add: dv_draw_detection_def getColor_def Let_def)
qed

theorem null_track_never_violation_witness:
  "track_id untracked_car = None
   \<and> dv_draw_detection (\<lambda>f t. 0) 1 1 False True [null_key_violation] untracked_car
       = [StrokeStyle ''#00FF00'', LineWidth 3, StrokeRect 10 20 30 40]"
  using null_track_never_violation
    [where det = untracked_car and showViolations = True and vs = "[null_key_violation]"
       and measureText = "\<lambda>f t. 0" and sx = 1 and sy = 1 and showLabels = False]
  by (simp add: getColor_def CLASS_COLORS_def)

text \<open>
  C7. Frame 1920 by 1080 in a viewport of 800 by 450: both scale factors are 5/12
  (0.4167 to four places), and the box (100, 100)-(300, 300) of a detection is
  stroked as the rectangle x = y = 125/3 and w = h = 250/3, that is 41.7 and 83.3
  to one place. The zones, violations, toggles and the other fields of the
  detection do not matter.
\<close>

theorem scenario_box:
  "StrokeRect (125 / 3) (125 / 3) (250 / 3) (250 / 3)
     \<in> set (dv_draw True measureText
          [\<lparr>bbox = \<lparr>x1 = 100, y1 = 100, x2 = 300, y2 = 300\<rparr>, class_name = cn, class_id = ci,
            confidence = cf, track_id = tid\<rparr>]
          zones vs (Num 1920) (Num 1080) (Num 800) (Num 450)
          showLabels showZones showViolations)
   \<and> scaleX (Num 800) (Num 1920) = 5 / 12 \<and> scaleY (Num 450) (Num 1080) = 5 / 12
   \<and> \<bar>(125::real) / 3 - 41.7\<bar> < 0.05 \<and> \<bar>(250::real) / 3 - 83.3\<bar> < 0.05
   \<and> \<bar>(5::real) / 12 - 0.4167\<bar> < 0.00005"
proof -
  have sx: "scaleX (Num 800) (Num 1920) = 5 / 12"
    by (simp add: scaleX_def safeFrameWidth_def safeContainerWidth_def)
  have sy: "scaleY (Num 450) (Num 1080) = 5 / 12"
    by (simp add: scaleY_def safeFrameHeight_def safeContainerHeight_def)
  have approx: "\<bar>(125::real) / 3 - 41.7\<bar> < 0.05 \<and> \<bar>(250::real) / 3 - 83.3\<bar> < 0.05
     \<and> \<bar>(5::real) / 12 - 0.4167\<bar> < 0.00005"
    by (simp add: abs_if)
  have mem: "StrokeRect (125 / 3) (125 / 3) (250 / 3) (250 / 3)
     \<in> set (dv_draw True measureText
          [\<lparr>bbox = \<lparr>x1 = 100, y1 = 100, x2 = 300, y2 = 300\<rparr>, class_name = cn, class_id = ci,
            confidence = cf, track_id = tid\<rparr>]
          zones vs (Num 1920) (Num 1080) (Num 800) (Num 450)
          showLabels showZones showViolations)"
    using stroke_rect_drawn [of "\<lparr>bbox = \<lparr>x1 = 100, y1 = 100, x2 = 300, y2 = 300\<rparr>,
      class_name = cn, class_id = ci, confidence = cf, track_id = tid\<rparr>" "5 / 12" "5 / 12"
      measureText showLabels showViolations vs]
    by (simp add: dv_draw_def sx sy)
  from mem sx sy approx show ?thesis by blast
qed

text \<open>
  C4. Save in the polygon editor. With the role stop_line and an empty link target
  the save is refused: the editor state (points, name, role) stays as it is, no
  zone is handed to onZoneAdd, so no request is sent, and the Save button is
  disabled. With fewer than 3 points the handler returns at once, with no event
  and no request. With the role stop_line, a non-empty link target and at least 3
  points, the zone handed to onZoneAdd carries that link in
  linked_traffic_light_id, and it is the zone posted for the camera.
\<close>

theorem save_validation:
  "(zoneType s = stop_line \<and> linkedTrafficLightId s = [] \<longrightarrow>
      fst (handleSaveZone new_id n s) = s
      \<and> (\<forall>z. OnZoneAdd z \<notin> set (snd (handleSaveZone new_id n s)))
      \<and> requests_sent cameraId (snd (handleSaveZone new_id n s)) = []
      \<and> save_disabled s \<and> click_save new_id n s = (s, []))
   \<and> (length (currentPoints s) < 3 \<longrightarrow>
      handleSaveZone new_id n s = (s, [])
      \<and> requests_sent cameraId (snd (handleSaveZone new_id n s)) = []
      \<and> save_disabled s \<and> click_save new_id n s = (s, []))
   \<and> (zoneType s = stop_line \<and> linkedTrafficLightId s \<noteq> [] \<and> 3 \<le> length (currentPoints s) \<longrightarrow>
      (\<exists>z. snd (handleSaveZone new_id n s) = [OnZoneAdd z, OnEditingChange False]
         \<and> linked_traffic_light_id z = Some (linkedTrafficLightId s)
         \<and> is_stop_line z \<and> points z = currentPoints s
         \<and> click_save new_id n s = handleSaveZone new_id n s
         \<and> (cameraId \<noteq> [] \<longrightarrow>
              requests_sent cameraId (snd (handleSaveZone new_id n s))
                = [POST_zones_add cameraId z])))"
  by (simp add: handleSaveZone_def save_disabled_def click_save_def handleZoneAdd_def)

theorem save_validation_witness:
  "handleSaveZone ''zone_2_b'' 1 unlinked_stop_line
     = (unlinked_stop_line, [Alert ''Stop Line must be linked to a Traffic Light zone!''])
   \<and> requests_sent ''cam1'' (snd (handleSaveZone ''zone_2_b'' 1 unlinked_stop_line)) = []
   \<and> click_save ''zone_2_b'' 1 unlinked_stop_line = (unlinked_stop_line, [])
   \<and> handleSaveZone ''zone_2_b'' 1 two_points = (two_points, [])
   \<and> click_save ''zone_2_b'' 1 two_points = (two_points, [])
   \<and> snd (handleSaveZone ''zone_2_b'' 1 linked_stop_line)
       = [OnZoneAdd saved_stop_line, OnEditingChange False]
   \<and> requests_sent ''cam1'' (snd (handleSaveZone ''zone_2_b'' 1 linked_stop_line))
       = [POST_zones_add ''cam1'' saved_stop_line]"
  using
    save_validation [where s = unlinked_stop_line and new_id = "''zone_2_b''" and n = 1
      and cameraId = "''cam1''"]
    save_validation [where s = two_points and new_id = "''zone_2_b''" and n = 1
      and cameraId = "''cam1''"]
    save_validation [where s = linked_stop_line and new_id = "''zone_2_b''" and n = 1
      and cameraId = "''cam1''"]
  by (simp add: handleSaveZone_def handleZoneAdd_def)

text \<open>
  C8. A zone built by the save operation has at most one of is_parking_zone,
  is_traffic_light and is_stop_line set, none of them exactly when the pending role
  is normal; its linked_traffic_light_id is non-null exactly when it is a stop
  line (and is then not the empty string); is_red_light is false.
\<close>

theorem saved_zone_role_invariant:
  assumes "OnZoneAdd z \<in> set (snd (handleSaveZone new_id n s))"
  shows "\<not> (is_parking_zone z \<and> is_traffic_light z)
    \<and> \<not> (is_parking_zone z \<and> is_stop_line z)
    \<and> \<not> (is_traffic_light z \<and> is_stop_line z)
    \<and> (zoneType s = normal \<longleftrightarrow>
          \<not> is_parking_zone z \<and> \<not> is_traffic_light z \<and> \<not> is_stop_line z)
    \<and> (linked_traffic_light_id z \<noteq> None \<longleftrightarrow> is_stop_line z)
    \<and> (is_stop_line z \<longrightarrow> linked_traffic_light_id z \<noteq> Some [])
    \<and> \<not> is_red_light z"
  using assms
  by (cases "zoneType s") (auto simp: handleSaveZone_def split: if_splits)


theorem saved_zone_role_invariant_witness:
  "OnZoneAdd saved_stop_line \<in> set (snd (handleSaveZone ''zone_2_b'' 1 linked_stop_line))
   \<and> \<not> is_parking_zone saved_stop_line \<and> \<not> is_traffic_light saved_stop_line
   \<and> is_stop_line saved_stop_line
   \<and> linked_traffic_light_id saved_stop_line \<noteq> None \<and> \<not> is_red_light saved_stop_line"
proof -
  have h: "OnZoneAdd saved_stop_line
             \<in> set (snd (handleSaveZone ''zone_2_b'' 1 linked_stop_line))"
    by (simp add: handleSaveZone_def)
  show ?thesis
    using h saved_zone_role_invariant [OF h] by simp
qed

text \<open>
  C5 (as amended). A zone with fewer than 3 points paints nothing in either repaint
  and raises nothing. In the detection viewer the whole repaint is the one of the
  zone list without it. In the polygon editor the same holds provided that no
  other stop-line zone with at least 3 points names the short zone's id as its
  linked_traffic_light_id.
\<close>

theorem short_zone_skipped:
  assumes "length (points z) < 3"
  shows "dv_draw_zone sx sy showLabels z = []
    \<and> dv_draw has_ctx measureText dets (zs1 @ z # zs2) vs fw fh cw ch
          showLabels showZones showViolations
        = dv_draw has_ctx measureText dets (zs1 @ zs2) vs fw fh cw ch
          showLabels showZones showViolations
    \<and> pe_draw_zone zones sx sy z = []
    \<and> ((\<forall>z' \<in> set (zs1 @ zs2). is_stop_line z' \<and> 3 \<le> length (points z')
            \<longrightarrow> linked_traffic_light_id z' \<noteq> Some (zid z))
        \<longrightarrow> pe_draw has_ctx (zs1 @ z # zs2) fw fh cw ch editing s
            = pe_draw has_ctx (zs1 @ zs2) fw fh cw ch editing s)"
proof -
  have dv: "dv_draw has_ctx measureText dets (zs1 @ z # zs2) vs fw fh cw ch
          showLabels showZones showViolations
        = dv_draw has_ctx measureText dets (zs1 @ zs2) vs fw fh cw ch
          showLabels showZones showViolations"
    by (simp only: dv_draw_def dv_draw_zones_skip [OF assms])
  have pe: "pe_draw has_ctx (zs1 @ z # zs2) fw fh cw ch editing s
            = pe_draw has_ctx (zs1 @ zs2) fw fh cw ch editing s"
    if "\<forall>z' \<in> set (zs1 @ zs2). is_stop_line z' \<and> 3 \<le> length (points z')
            \<longrightarrow> linked_traffic_light_id z' \<noteq> Some (zid z)"
    by (simp only: pe_draw_def pe_draw_zones_skip [OF assms that])
  from dv pe dv_short_zone [OF assms] pe_short_zone [OF assms] show ?thesis
    by blast
qed

theorem short_zone_skipped_witness:
  "length (points short_zone_z9) < 3
   \<and> dv_draw True (\<lambda>f t. 0) [] [stop_line_s1, short_zone_z9, short_light_l1] []
         (Num 640) (Num 360) (Num 640) (Num 360) True True True
       = dv_draw True (\<lambda>f t. 0) [] [stop_line_s1, short_light_l1] []
         (Num 640) (Num 360) (Num 640) (Num 360) True True True
   \<and> pe_draw True [stop_line_s1, short_zone_z9, short_light_l1]
         (Num 640) (Num 360) (Num 640) (Num 360) False idle_editor
       = pe_draw True [stop_line_s1, short_light_l1]
         (Num 640) (Num 360) (Num 640) (Num 360) False idle_editor"
  using short_zone_skipped
    [where z = short_zone_z9 and ?zs1.0 = "[stop_line_s1]" and ?zs2.0 = "[short_light_l1]"
       and has_ctx = True and measureText = "\<lambda>f t. 0" and dets = "[]" and vs = "[]"
       and fw = "Num 640" and fh = "Num 360" and cw = "Num 640" and ch = "Num 360"
       and showLabels = True and showZones = True and showViolations = True
       and editing = False and s = idle_editor]
  by simp

text \<open>
  C5 as stated fails in the polygon editor: the link of a stop line is looked up in
  the whole zone list, so a traffic light with only 2 points, itself skipped, still
  decides the fill, outline, label and connector of the stop line linked to it.
\<close>

theorem short_light_changes_stop_line_counterexample:
  "length (points short_light_l1) < 3
   \<and> pe_draw_zone [stop_line_s1, short_light_l1] 1 1 stop_line_s1
       \<noteq> pe_draw_zone [stop_line_s1] 1 1 stop_line_s1
   \<and> pe_draw True [stop_line_s1, short_light_l1] (Num 640) (Num 360) (Num 640) (Num 360)
         False idle_editor
       \<noteq> pe_draw True [stop_line_s1] (Num 640) (Num 360) (Num 640) (Num 360)
         False idle_editor"
  by (simp add: pe_draw_def pe_draw_zones_def pe_draw_zone_def getZoneColor_def
      getZoneStrokeColor_def linkedLight_def light_is_red_def)

text \<open>
  C3. Stream detection is started on a fresh page, the socket opens, and one
  detection_result message with one violation and a frame arrives; then detection
  is turned off. The result is cleared, but the violation list still holds that
  violation: the branch that resets the page (lines 300-311) calls setResult(null)
  and setSyncedFrame(null) and has no setViolations([]).
\<close>

theorem toggle_off_keeps_violations:
  "isDetecting (ws_onmessage (Json full_message) streaming_page)
   \<and> violations (ws_onmessage (Json full_message) streaming_page) = [violation7]
   \<and> violations (toggle_detection True ''cam1'' ''http://cam/live.m3u8''
                   (ws_onmessage (Json full_message) streaming_page))
       = [violation7]
   \<and> result (toggle_detection True ''cam1'' ''http://cam/live.m3u8''
               (ws_onmessage (Json full_message) streaming_page))
       = None
   \<and> \<not> isDetecting (toggle_detection True ''cam1'' ''http://cam/live.m3u8''
                       (ws_onmessage (Json full_message) streaming_page))"
  by (simp add: toggle_detection_def detection_effect_def detection_cleanup_def close_socket_def
      ws_onmessage_def ws_onopen_def initial_page_def or_empty_def Let_def)

text \<open>
  C9. On open the client writes {video_url, send_frame: true} to the socket. Every
  message of the protocol's shape {type: "detection_result", result, violations,
  frame?}, that is, one with a result object whose processing time is a number,
  replaces the result, the violation list (by the empty list when the message has
  none) and the frame size with those of the message; when it carries a frame (an
  encoded image, so not the empty string), that frame becomes the synced frame
  and, detection being on, the displayed surface of the stream camera; with no
  frame, or the empty string in its place, the synced frame stays as it was. A
  text that cannot be parsed is logged and changes nothing else. No message
  closes the socket or empties the socket ref.
\<close>

theorem ws_stream_protocol:
  "ws_sent (ws_onopen cameraUrl h s) = ws_sent s @ [(h, StreamRequest cameraUrl True)]
   \<and> (m_type d = ''detection_result'' \<and> m_result d = Some r \<and> processing_time_ms r = Some t
        \<longrightarrow>
        result (ws_onmessage (Json d) s) = Some r
        \<and> violations (ws_onmessage (Json d) s) = or_empty (m_violations d)
        \<and> frameSize (ws_onmessage (Json d) s) = \<lparr>width = frame_width r, height = frame_height r\<rparr>
        \<and> (\<forall>f. m_frame d = Some f \<and> f \<noteq> [] \<longrightarrow>
               syncedFrame (ws_onmessage (Json d) s) = Some f
               \<and> (isDetecting s \<longrightarrow> displayed True (ws_onmessage (Json d) s) = SyncedFrameImg f))
        \<and> (m_frame d = None \<or> m_frame d = Some [] \<longrightarrow>
               syncedFrame (ws_onmessage (Json d) s) = syncedFrame s))
   \<and> ws_onmessage Unreadable s
       = s\<lparr>console_errors := console_errors s @ [''WS message parse error:'']\<rparr>
   \<and> open_sockets (ws_onmessage payload s) = open_sockets s
   \<and> wsRef (ws_onmessage payload s) = wsRef s"
proof -
  have keep: "open_sockets (ws_onmessage payload s) = open_sockets s
      \<and> wsRef (ws_onmessage payload s) = wsRef s"
    by (cases payload) (simp_all add: ws_onmessage_def Let_def split: option.splits)
  have msg: "result (ws_onmessage (Json d) s) = Some r
        \<and> violations (ws_onmessage (Json d) s) = or_empty (m_violations d)
        \<and> frameSize (ws_onmessage (Json d) s) = \<lparr>width = frame_width r, height = frame_height r\<rparr>
        \<and> (\<forall>f. m_frame d = Some f \<and> f \<noteq> [] \<longrightarrow>
               syncedFrame (ws_onmessage (Json d) s) = Some f
               \<and> (isDetecting s \<longrightarrow> displayed True (ws_onmessage (Json d) s) = SyncedFrameImg f))
        \<and> (m_frame d = None \<or> m_frame d = Some [] \<longrightarrow>
               syncedFrame (ws_onmessage (Json d) s) = syncedFrame s)"
    if "m_type d = ''detection_result''" and "m_result d = Some r"
      and "processing_time_ms r = Some t"
    using that by (auto simp: ws_onmessage_def displayed_def Let_def)
  have "ws_sent (ws_onopen cameraUrl h s) = ws_sent s @ [(h, StreamRequest cameraUrl True)]"
    by (simp add: ws_onopen_def)
  moreover have "ws_onmessage Unreadable s
      = s\<lparr>console_errors := console_errors s @ [''WS message parse error:'']\<rparr>"
    by (simp add: ws_onmessage_def)
  ultimately show ?thesis
    using keep msg by blast
qed

theorem ws_stream_protocol_witness:
  "isDetecting streaming_page
   \<and> ws_sent streaming_page = [(1, StreamRequest ''http://cam/live.m3u8'' True)]
   \<and> result (ws_onmessage (Json full_message) streaming_page) = Some result720
   \<and> violations (ws_onmessage (Json full_message) streaming_page) = [violation7]
   \<and> frameSize (ws_onmessage (Json full_message) streaming_page)
       = \<lparr>width = 1280, height = 720\<rparr>
   \<and> syncedFrame (ws_onmessage (Json full_message) streaming_page)
       = Some ''data:image/jpeg;base64,AA''
   \<and> displayed True (ws_onmessage (Json full_message) streaming_page)
       = SyncedFrameImg ''data:image/jpeg;base64,AA''
   \<and> syncedFrame (ws_onmessage (Json message_with_empty_frame) streaming_page) = None"
proof -
  have det: "isDetecting streaming_page"
    and sf: "syncedFrame streaming_page = None"
    and sent: "ws_sent streaming_page = [(1, StreamRequest ''http://cam/live.m3u8'' True)]"
    by (simp_all add: ws_onopen_def toggle_detection_def detection_effect_def
        detection_cleanup_def close_socket_def initial_page_def Let_def)
  show ?thesis
    using det sf sent
      ws_stream_protocol [where d = full_message and r = result720 and t = 35
        and s = streaming_page]
      ws_stream_protocol [where d = message_with_empty_frame and r = result720 and t = 35
        and s = streaming_page]
    by (simp add: or_empty_def)
qed

end
